theory Spec2Isabelle
  imports Complex_Main
begin

section \<open>Values of the host language\<close>

text \<open>
  The pages and the edge functions handle data typed \<open>any\<close>: parsed JSON and \<open>jsonb\<close>
  columns. \<open>jsval\<close> is such a value. An object is an association list, the first binding
  of a key being the one a property read sees. A number inside such a value is kept as
  its exact value: the code below only tests it for truthiness and passes it on.
\<close>

datatype jsval =
    JUndefined
  | JNull
  | JBool bool
  | JNum rat
  | JStr string
  | JArr "jsval list"
  | JObj "(string \<times> jsval) list"

text \<open>Truthiness, as \<open>x && ...\<close>, \<open>x || ...\<close> and \<open>if (x)\<close> test it.\<close>

fun truthy :: "jsval \<Rightarrow> bool" where
  "truthy JUndefined = False"
| "truthy JNull = False"
| "truthy (JBool b) = b"
| "truthy (JNum n) = (n \<noteq> 0)"
| "truthy (JStr s) = (s \<noteq> [])"
| "truthy (JArr xs) = True"
| "truthy (JObj kvs) = True"

text \<open>\<open>a || b\<close> on values.\<close>

definition js_or :: "jsval \<Rightarrow> jsval \<Rightarrow> jsval" where
  "js_or a b = (if truthy a then a else b)"

fun isArray :: "jsval \<Rightarrow> bool" where
  "isArray (JArr xs) = True"
| "isArray v = False"

text \<open>\<open>v.length\<close>: the length of an array or a string, \<open>undefined\<close> (here 0) otherwise.\<close>

fun js_length :: "jsval \<Rightarrow> nat" where
  "js_length (JArr xs) = length xs"
| "js_length (JStr s) = length s"
| "js_length v = 0"

text \<open>
  \<open>Object.keys(v).length\<close> for a value that is neither \<open>null\<close> nor \<open>undefined\<close>: the own
  enumerable string keys of an object, the indices of an array or of a string, none for a
  boolean or a number.
\<close>

fun object_keys_length :: "jsval \<Rightarrow> nat" where
  "object_keys_length (JObj kvs) = length (remdups (map fst kvs))"
| "object_keys_length (JArr xs) = length xs"
| "object_keys_length (JStr s) = length s"
| "object_keys_length v = 0"

text \<open>
  An error value: \<open>Err m\<close> is an error object with message \<open>m\<close> (returned by the storage
  or functions client, or thrown with \<open>new Error(m)\<close>); \<open>TypeError p\<close> is the
  interpreter's error on reading property \<open>p\<close> of \<open>null\<close> or \<open>undefined\<close>.
\<close>

datatype error = Err string | TypeError string

text \<open>
  What awaiting a request of the storage or functions client gives: the promise is
  fulfilled with an object \<open>{ data, error }\<close>, either of which may be \<open>null\<close>, or it is
  rejected and \<open>await\<close> throws.
\<close>

datatype 'a reply = Fulfilled "'a option" "error option" | Rejected error

text \<open>
  Numbers are binary floating point numbers of 64 bits. A finite number is kept as its
  exact value, a rational. \<open>to_double\<close> rounds a rational to the nearest such number,
  to the one with an even significand on a tie: with \<open>e\<close> the exponent of the leading
  bit, the value is scaled to a significand of 53 bits, rounded to an integer and scaled
  back. The exponent is not bounded here; the quotients and products below, of counts
  smaller than \<open>2^53\<close>, stay far inside the range of the exponents.
\<close>

function bit_length :: "int \<Rightarrow> nat" where
  "bit_length n = (if n \<le> 0 then 0 else Suc (bit_length (n div 2)))"
  by pat_completeness auto
termination
  by (relation "measure nat") auto

definition pow2 :: "int \<Rightarrow> rat" where
  "pow2 e = (if 0 \<le> e then 2 ^ nat e else 1 / 2 ^ nat (- e))"

text \<open>The exponent of the leading bit of a positive rational: \<open>2^e \<le> x < 2^(e+1)\<close>.\<close>

definition binary_exponent :: "rat \<Rightarrow> int" where
  "binary_exponent x =
     (let k = int (bit_length (fst (quotient_of x))) - int (bit_length (snd (quotient_of x)))
      in if pow2 k \<le> x then k else k - 1)"

definition round_half_even :: "rat \<Rightarrow> int" where
  "round_half_even x =
     (let f = \<lfloor>x\<rfloor>; d = x - of_int f
      in if d < 1 / 2 then f
         else if 1 / 2 < d then f + 1
         else if even f then f else f + 1)"

definition to_double :: "rat \<Rightarrow> rat" where
  "to_double x =
     (if x = 0 then 0
      else if x < 0 then - (let e = binary_exponent (- x) - 52
                            in of_int (round_half_even (- x / pow2 e)) * pow2 e)
      else (let e = binary_exponent x - 52
            in of_int (round_half_even (x / pow2 e)) * pow2 e))"

text \<open>
  A number as the quiz page computes it. \<open>a / b\<close> of two counts is the quotient rounded
  to a number, \<open>NaN\<close> or \<open>Infinity\<close> when \<open>b\<close> is zero; \<open>x * k\<close> is the product rounded
  to a number.
\<close>

datatype number = Num rat | Infinity | NaN

definition js_div :: "nat \<Rightarrow> nat \<Rightarrow> number" where
  "js_div a b =
     (if b = 0 then (if a = 0 then NaN else Infinity)
      else Num (to_double (of_nat a / of_nat b)))"

fun js_times :: "number \<Rightarrow> rat \<Rightarrow> number" where
  "js_times (Num x) k = Num (to_double (x * k))"
| "js_times Infinity k = Infinity"
| "js_times NaN k = NaN"

text \<open>
  \<open>x.toFixed(0)\<close>: the integer nearest to the exact value of the number, the larger one
  on a tie.
\<close>

datatype fixed = Digits int | FixedInfinity | FixedNaN

fun toFixed0 :: "number \<Rightarrow> fixed" where
  "toFixed0 (Num x) = Digits (round x)"
| "toFixed0 Infinity = FixedInfinity"
| "toFixed0 NaN = FixedNaN"

section \<open>Strings\<close>

text \<open>
  A string is a list of characters, each standing for one code unit below 256. The white
  space that \<open>trim()\<close> removes and that \<open>\s\<close> matches is the same set; its members below
  256 are tab, line feed, vertical tab, form feed, carriage return, space and no-break
  space.
\<close>

definition is_space :: "char \<Rightarrow> bool" where
  "is_space c = (c \<in> set [CHR 0x09, CHR 0x0A, CHR 0x0B, CHR 0x0C, CHR 0x0D, CHR 0x20, CHR 0xA0])"

definition trim :: "string \<Rightarrow> string" where
  "trim s = rev (dropWhile is_space (rev (dropWhile is_space s)))"

fun startsWith :: "string \<Rightarrow> string \<Rightarrow> bool" where
  "startsWith s [] = True"
| "startsWith [] (p # ps) = False"
| "startsWith (c # cs) (p # ps) = (c = p \<and> startsWith cs ps)"

section \<open>Rows written and effects observed\<close>

text \<open>
  The rows the pages send to the storage service. A field filled from generated data holds
  whatever value the data has there. A title built with a template literal
  \<open>`${v} - Notes`\<close> is kept as the pair of the value and the suffix.
\<close>

type_synonym template = "jsval \<times> string"

record material_row =
  material_user_id :: string
  material_title :: jsval
  material_content :: string
  source_type :: string
  material_summary :: jsval

record note_row =
  note_user_id :: string
  note_material_id :: string
  note_title :: template
  note_content :: jsval
  key_points :: jsval
  examples :: jsval

record flashcard_row =
  flashcard_user_id :: string
  flashcard_material_id :: string
  flashcard_question :: jsval
  flashcard_answer :: jsval
  difficulty :: jsval

record quiz_row =
  quiz_user_id :: string
  quiz_material_id :: string
  quiz_row_title :: template

record question_row =
  row_quiz_id :: string
  row_question_text :: jsval
  row_question_type :: jsval
  row_options :: jsval
  row_correct_answer :: jsval
  row_explanation :: jsval

record attempt_row =
  attempt_user_id :: "string option"
  attempt_quiz_id :: "string option"
  attempt_score :: number
  total_questions :: nat

datatype invoke_body = TopicBody string | ContentBody string string

text \<open>The text of an error notification: a literal, or the message of a caught error.\<close>

datatype notice = Text string | MessageOf error

text \<open>What a handler does to the outside, in order.\<close>

datatype event =
    SelectQuestions string
  | DeleteQuestions string
  | DeleteQuiz string
  | InsertAttempt attempt_row
  | InsertMaterial material_row
  | InsertNote note_row
  | InsertFlashcards "flashcard_row list"
  | InsertQuiz quiz_row
  | InsertQuestions "question_row list"
  | Invoke string invoke_body
  | ToastError notice
  | ToastSuccess string
  | ToastScore fixed
  | ConsoleError string
  | Timeout nat "event list"
  | ClearText
  | Navigate string

section \<open>The quiz page (src/pages/Quizzes.tsx)\<close>

record quiz =
  quiz_id :: string
  quiz_title :: string
  created_at :: string

record question =
  q_id :: string
  question_text :: string
  question_type :: string
  options :: jsval
  correct_answer :: string
  explanation :: "string option"

text \<open>The component's state, one field per \<open>useState\<close>.\<close>

record session =
  quizzes :: "quiz list"
  selectedQuiz :: "quiz option"
  questions :: "question list"
  currentQuestionIndex :: int
  userAnswers :: "string \<rightharpoonup> string"
  showResults :: bool
  loading :: bool
  deleteDialogOpen :: bool
  quizToDelete :: "string option"
  deleting :: bool

text \<open>Which of the four screens the component renders (the chain of early returns).\<close>

datatype view = LoadingView | BrowsingView | ResultsView | QuestionView

definition render :: "session \<Rightarrow> view" where
  "render st =
     (if loading st then LoadingView
      else if selectedQuiz st = None then BrowsingView
      else if showResults st then ResultsView
      else QuestionView)"

text \<open>The predicate of the filter in \<open>loadQuiz\<close>, on a question's \<open>options\<close>.\<close>

definition has_options :: "jsval \<Rightarrow> bool" where
  "has_options opts =
     (truthy opts \<and>
      (if isArray opts then js_length opts > 0
       else object_keys_length (js_or opts (JObj [])) > 0))"

text \<open>\<open>(data || []).filter(...)\<close>: the questions of the fetched rows that can be played.\<close>

definition validQuestions :: "question list option \<Rightarrow> question list" where
  "validQuestions d =
     filter (\<lambda>q. has_options (options q)) (case d of None \<Rightarrow> [] | Some rows \<Rightarrow> rows)"

definition loadQuiz :: "question list reply \<Rightarrow> quiz \<Rightarrow> session \<Rightarrow> session \<times> event list" where
  "loadQuiz r quiz st =
     (let failed = (st\<lparr>loading := False\<rparr>,
                    [SelectQuestions (quiz_id quiz), ConsoleError ''Error loading quiz:'',
                     ToastError (Text ''Failed to load quiz questions'')])
      in case r of
        Rejected e \<Rightarrow> failed
      | Fulfilled d (Some e) \<Rightarrow> failed
      | Fulfilled d None \<Rightarrow>
          if length (validQuestions d) = 0
          then (st\<lparr>loading := False\<rparr>,
                [SelectQuestions (quiz_id quiz),
                 ToastError (Text ''No valid multiple choice questions found in this quiz'')])
          else (st\<lparr>questions := validQuestions d,
                   selectedQuiz := Some quiz,
                   currentQuestionIndex := 0,
                   userAnswers := Map.empty,
                   showResults := False,
                   loading := False\<rparr>,
                [SelectQuestions (quiz_id quiz)]))"

definition handleAnswerSelect :: "string \<Rightarrow> string \<Rightarrow> session \<Rightarrow> session" where
  "handleAnswerSelect questionId answer st =
     st\<lparr>userAnswers := (userAnswers st)(questionId \<mapsto> answer)\<rparr>"

definition handleNext :: "session \<Rightarrow> session" where
  "handleNext st =
     (if currentQuestionIndex st < int (length (questions st)) - 1
      then st\<lparr>currentQuestionIndex := currentQuestionIndex st + 1\<rparr>
      else st)"

definition handlePrevious :: "session \<Rightarrow> session" where
  "handlePrevious st =
     (if currentQuestionIndex st > 0
      then st\<lparr>currentQuestionIndex := currentQuestionIndex st - 1\<rparr>
      else st)"

text \<open>
  The \<open>reduce\<close> of \<open>handleSubmit\<close> and of the results screen. A question without a stored
  answer reads \<open>undefined\<close>, which is \<open>===\<close> to no string.
\<close>

definition score_of :: "question list \<Rightarrow> (string \<rightharpoonup> string) \<Rightarrow> nat" where
  "score_of qs answers =
     fold (\<lambda>q acc. acc + (if answers (q_id q) = Some (correct_answer q) then 1 else 0)) qs 0"

definition handleSubmit ::
  "unit reply \<Rightarrow> string option \<Rightarrow> session \<Rightarrow> session \<times> event list" where
  "handleSubmit r user st =
     (let score = score_of (questions st) (userAnswers st);
          percentage = js_times (js_div score (length (questions st))) 100;
          row = \<lparr>attempt_user_id = user,
                 attempt_quiz_id = map_option quiz_id (selectedQuiz st),
                 attempt_score = percentage,
                 total_questions = length (questions st)\<rparr>
      in case r of
        Rejected e \<Rightarrow>
          (st, [InsertAttempt row, ConsoleError ''Error saving quiz attempt:'',
                ToastError (Text ''Failed to save quiz results'')])
      | Fulfilled d e \<Rightarrow>
          (st\<lparr>showResults := True\<rparr>, [InsertAttempt row, ToastScore (toFixed0 percentage)]))"

text \<open>
  The head of the results screen: the score, the percentage as shown, and the number of
  questions, recomputed from the state.
\<close>

definition results_view :: "session \<Rightarrow> nat \<times> fixed \<times> nat" where
  "results_view st =
     (let score = score_of (questions st) (userAnswers st);
          percentage = js_times (js_div score (length (questions st))) 100
      in (score, toFixed0 percentage, length (questions st)))"

definition resetQuiz :: "session \<Rightarrow> session" where
  "resetQuiz st =
     st\<lparr>selectedQuiz := None, questions := [], currentQuestionIndex := 0,
        userAnswers := Map.empty, showResults := False\<rparr>"

subsection \<open>Deleting a quiz\<close>

text \<open>
  The two tables the deletion touches, holding the rows of the signed-in user. A question
  row is kept with the id of the quiz it belongs to (its \<open>quiz_id\<close> column).
\<close>

record storage =
  quiz_rows :: "quiz list"
  question_rows :: "(string \<times> question) list"

text \<open>
  The migration enables row level security on both tables and creates these policies:
  on \<open>quizzes\<close> for select, insert, update and delete, each for the rows of the user; on
  \<open>questions\<close> for select and insert only, for the questions of the user's quizzes. A
  command for which a table has no policy sees no row of it, and is answered without an
  error.
\<close>

datatype table = Quizzes | Questions

datatype command = SelectCmd | InsertCmd | UpdateCmd | DeleteCmd

definition policies :: "(table \<times> command) list" where
  "policies = [(Quizzes, SelectCmd), (Quizzes, InsertCmd), (Quizzes, UpdateCmd),
               (Quizzes, DeleteCmd), (Questions, SelectCmd), (Questions, InsertCmd)]"

definition permitted :: "table \<Rightarrow> command \<Rightarrow> bool" where
  "permitted t c = ((t, c) \<in> set policies)"

text \<open>
  How the storage service treats one request on the user's rows of a table: it answers
  without error, having applied the request's effect if a policy permits the command and
  nothing otherwise; it reports an error and changes nothing; or the call itself fails
  and changes nothing.
\<close>

datatype outcome = Done | Refused error | Crashed error

definition request ::
  "outcome \<Rightarrow> table \<Rightarrow> command \<Rightarrow> (storage \<Rightarrow> storage) \<Rightarrow> storage \<Rightarrow> unit reply \<times> storage" where
  "request oc t c effect db =
     (case oc of
        Done \<Rightarrow> (Fulfilled None None, if permitted t c then effect db else db)
      | Refused e \<Rightarrow> (Fulfilled None (Some e), db)
      | Crashed e \<Rightarrow> (Rejected e, db))"

text \<open>
  The effects of \<open>from("questions").delete().eq("quiz_id", x)\<close> and of
  \<open>from("quizzes").delete().eq("id", x)\<close>. The column \<open>quiz_id\<close> of \<open>questions\<close>
  refers to \<open>quizzes(id)\<close> with \<open>on delete cascade\<close>: deleting a quiz row deletes its
  question rows with it.
\<close>

definition delete_questions_eq :: "string \<Rightarrow> storage \<Rightarrow> storage" where
  "delete_questions_eq x db = db\<lparr>question_rows := filter (\<lambda>row. fst row \<noteq> x) (question_rows db)\<rparr>"

definition delete_quizzes_eq :: "string \<Rightarrow> storage \<Rightarrow> storage" where
  "delete_quizzes_eq x db =
     db\<lparr>quiz_rows := filter (\<lambda>row. quiz_id row \<noteq> x) (quiz_rows db),
        question_rows := filter (\<lambda>row. fst row \<noteq> x) (question_rows db)\<rparr>"

definition delete_failed :: "session \<Rightarrow> event list \<Rightarrow> session \<times> event list" where
  "delete_failed st requests =
     (st\<lparr>deleting := False\<rparr>,
      requests @ [ConsoleError ''Error deleting quiz:'', ToastError (Text ''Failed to delete quiz'')])"

definition handleDeleteConfirm ::
  "outcome \<Rightarrow> outcome \<Rightarrow> storage \<Rightarrow> session \<Rightarrow> (session \<times> event list) \<times> storage" where
  "handleDeleteConfirm o1 o2 db st =
     (case quizToDelete st of
        None \<Rightarrow> ((st, []), db)
      | Some x \<Rightarrow>
          if x = [] then ((st, []), db)
          else
            (case request o1 Questions DeleteCmd (delete_questions_eq x) db of
               (Rejected e, db1) \<Rightarrow> (delete_failed st [DeleteQuestions x], db1)
             | (Fulfilled d (Some questionsError), db1) \<Rightarrow>
                 (delete_failed st [DeleteQuestions x], db1)
             | (Fulfilled d None, db1) \<Rightarrow>
                 (case request o2 Quizzes DeleteCmd (delete_quizzes_eq x) db1 of
                    (Rejected e, db2) \<Rightarrow>
                      (delete_failed st [DeleteQuestions x, DeleteQuiz x], db2)
                  | (Fulfilled d' (Some quizError), db2) \<Rightarrow>
                      (delete_failed st [DeleteQuestions x, DeleteQuiz x], db2)
                  | (Fulfilled d' None, db2) \<Rightarrow>
                      ((st\<lparr>quizzes := filter (\<lambda>quiz. quiz_id quiz \<noteq> x) (quizzes st),
                           deleteDialogOpen := False,
                           quizToDelete := None,
                           deleting := False\<rparr>,
                        [DeleteQuestions x, DeleteQuiz x,
                         ToastSuccess ''Quiz deleted successfully!'']),
                       db2))))"

subsection \<open>Sequences of actions on the question screen\<close>

datatype action = Next | Previous | Answer string string

fun act :: "action \<Rightarrow> session \<Rightarrow> session" where
  "act Next st = handleNext st"
| "act Previous st = handlePrevious st"
| "act (Answer questionId answer) st = handleAnswerSelect questionId answer st"

definition run :: "action list \<Rightarrow> session \<Rightarrow> session" where
  "run as st = fold act as st"

section \<open>The materials page (pages/Materials.tsx)\<close>

text \<open>
  Reading property \<open>p\<close> of a value. It throws on \<open>null\<close> and \<open>undefined\<close>; an object
  gives the bound value or \<open>undefined\<close>. The names read below (\<open>summary\<close>, \<open>title\<close>,
  \<open>question\<close>, ...) are no built-in property of a string, an array, a number or a
  boolean, which therefore give \<open>undefined\<close>.
\<close>

fun get :: "jsval \<Rightarrow> string \<Rightarrow> error + jsval" where
  "get JUndefined p = Inl (TypeError p)"
| "get JNull p = Inl (TypeError p)"
| "get (JObj kvs) p = Inr (case map_of kvs p of None \<Rightarrow> JUndefined | Some v \<Rightarrow> v)"
| "get v p = Inr JUndefined"

text \<open>The same read where the value is already known to be neither \<open>null\<close> nor \<open>undefined\<close>.\<close>

definition read :: "jsval \<Rightarrow> string \<Rightarrow> jsval" where
  "read v p = (case get v p of Inl e \<Rightarrow> JUndefined | Inr x \<Rightarrow> x)"

text \<open>\<open>xs.map(f)\<close> for a callback that may throw: the first throw ends the loop.\<close>

fun map_rows :: "('a \<Rightarrow> error + 'b) \<Rightarrow> 'a list \<Rightarrow> error + 'b list" where
  "map_rows f [] = Inr []"
| "map_rows f (x # xs) =
     (case f x of
        Inl e \<Rightarrow> Inl e
      | Inr y \<Rightarrow> (case map_rows f xs of Inl e \<Rightarrow> Inl e | Inr ys \<Rightarrow> Inr (y # ys)))"

fun elements :: "jsval \<Rightarrow> jsval list" where
  "elements (JArr xs) = xs"
| "elements v = []"

text \<open>
  The replies of the storage service to the five inserts of the fan-out. The data of the
  material and of the quiz insert is the inserted row, of which the code reads the id.
\<close>

record fanout_replies =
  material_reply :: "string reply"
  note_reply :: "unit reply"
  flashcards_reply :: "unit reply"
  quiz_reply :: "string reply"
  questions_reply :: "unit reply"

text \<open>
  The four steps of \<open>saveMaterialAndContent\<close>. A step gives the error it throws, if any,
  and the requests it sent. \<open>material\<close> is the row the first insert returned, \<open>None\<close> when
  it returned \<open>null\<close>, in which case reading \<open>material.id\<close> throws.
\<close>

definition save_notes ::
  "unit reply \<Rightarrow> string \<Rightarrow> string option \<Rightarrow> jsval \<Rightarrow> jsval \<Rightarrow> error option \<times> event list" where
  "save_notes r uid material materialTitle generatedData =
     (if truthy (js_or (read generatedData ''key_points'') (read generatedData ''examples''))
      then (case material of
              None \<Rightarrow> (Some (TypeError ''id''), [])
            | Some mid \<Rightarrow>
                (let row = \<lparr>note_user_id = uid,
                            note_material_id = mid,
                            note_title = (materialTitle, '' - Notes''),
                            note_content = read generatedData ''summary'',
                            key_points = read generatedData ''key_points'',
                            examples = read generatedData ''examples''\<rparr>
                 in case r of
                      Rejected e \<Rightarrow> (Some e, [InsertNote row])
                    | Fulfilled d e \<Rightarrow> (None, [InsertNote row])))
      else (None, []))"

definition flashcard_of :: "string \<Rightarrow> string option \<Rightarrow> jsval \<Rightarrow> error + flashcard_row" where
  "flashcard_of uid material entry =
     (case material of
        None \<Rightarrow> Inl (TypeError ''id'')
      | Some mid \<Rightarrow>
          (case get entry ''question'' of
             Inl e \<Rightarrow> Inl e
           | Inr q \<Rightarrow>
               Inr \<lparr>flashcard_user_id = uid,
                    flashcard_material_id = mid,
                    flashcard_question = q,
                    flashcard_answer = read entry ''answer'',
                    difficulty = js_or (read entry ''difficulty'') (JStr ''medium'')\<rparr>))"

definition save_flashcards ::
  "unit reply \<Rightarrow> string \<Rightarrow> string option \<Rightarrow> jsval \<Rightarrow> error option \<times> event list" where
  "save_flashcards r uid material generatedData =
     (let flashcards = read generatedData ''flashcards''
      in if truthy flashcards \<and> isArray flashcards
         then (case map_rows (flashcard_of uid material) (elements flashcards) of
                 Inl e \<Rightarrow> (Some e, [])
               | Inr flashcardsData \<Rightarrow>
                   (case r of
                      Rejected e \<Rightarrow> (Some e, [InsertFlashcards flashcardsData])
                    | Fulfilled d e \<Rightarrow> (None, [InsertFlashcards flashcardsData])))
         else (None, []))"

definition question_of :: "string \<Rightarrow> jsval \<Rightarrow> error + question_row" where
  "question_of qid q =
     (case get q ''question'' of
        Inl e \<Rightarrow> Inl e
      | Inr t \<Rightarrow>
          Inr \<lparr>row_quiz_id = qid,
               row_question_text = t,
               row_question_type = read q ''type'',
               row_options = js_or (read q ''options'') JNull,
               row_correct_answer = read q ''correct_answer'',
               row_explanation = js_or (read q ''explanation'') JNull\<rparr>)"

definition save_quiz ::
  "string reply \<Rightarrow> unit reply \<Rightarrow> string \<Rightarrow> string option \<Rightarrow> jsval \<Rightarrow> jsval
     \<Rightarrow> error option \<times> event list" where
  "save_quiz rq rqs uid material materialTitle generatedData =
     (let quiz_questions = read generatedData ''quiz_questions''
      in if truthy quiz_questions \<and> isArray quiz_questions
         then (case material of
                 None \<Rightarrow> (Some (TypeError ''id''), [])
               | Some mid \<Rightarrow>
                   (let ev = [InsertQuiz \<lparr>quiz_user_id = uid,
                                          quiz_material_id = mid,
                                          quiz_row_title = (materialTitle, '' - Quiz'')\<rparr>]
                    in case rq of
                         Rejected e \<Rightarrow> (Some e, ev)
                       | Fulfilled None e \<Rightarrow> (None, ev)
                       | Fulfilled (Some qid) e \<Rightarrow>
                           (case map_rows (question_of qid) (elements quiz_questions) of
                              Inl e' \<Rightarrow> (Some e', ev)
                            | Inr questionsData \<Rightarrow>
                                (case rqs of
                                   Rejected e' \<Rightarrow> (Some e', ev @ [InsertQuestions questionsData])
                                 | Fulfilled d' e' \<Rightarrow> (None, ev @ [InsertQuestions questionsData])))))
         else (None, []))"

text \<open>
  \<open>saveMaterialAndContent\<close>: \<open>Inr None\<close> is the return without a value when there is no
  user, \<open>Inr (Some True)\<close> is \<open>return true\<close>, \<open>Inl e\<close> is the error rethrown by the
  \<open>catch\<close> block after it has logged it.
\<close>

definition thrown :: "error \<Rightarrow> event list \<Rightarrow> (error + bool option) \<times> event list" where
  "thrown e evs = (Inl e, evs @ [ConsoleError ''Error saving to database:''])"

definition saveMaterialAndContent ::
  "fanout_replies \<Rightarrow> string option \<Rightarrow> jsval \<Rightarrow> string \<Rightarrow> string \<Rightarrow> jsval
     \<Rightarrow> (error + bool option) \<times> event list" where
  "saveMaterialAndContent rs user materialTitle materialContent sourceType generatedData =
     (case user of
        None \<Rightarrow> (Inr None, [])
      | Some uid \<Rightarrow>
          (case get generatedData ''summary'' of
             Inl e \<Rightarrow> thrown e []
           | Inr summary \<Rightarrow>
               (let ev1 = [InsertMaterial \<lparr>material_user_id = uid,
                                           material_title = materialTitle,
                                           material_content = materialContent,
                                           source_type = sourceType,
                                           material_summary = summary\<rparr>]
                in case material_reply rs of
                     Rejected e \<Rightarrow> thrown e ev1
                   | Fulfilled material (Some materialError) \<Rightarrow> thrown materialError ev1
                   | Fulfilled material None \<Rightarrow>
                       (case save_notes (note_reply rs) uid material materialTitle generatedData of
                          (Some e, ev2) \<Rightarrow> thrown e (ev1 @ ev2)
                        | (None, ev2) \<Rightarrow>
                            (case save_flashcards (flashcards_reply rs) uid material generatedData of
                               (Some e, ev3) \<Rightarrow> thrown e (ev1 @ ev2 @ ev3)
                             | (None, ev3) \<Rightarrow>
                                 (case save_quiz (quiz_reply rs) (questions_reply rs) uid material
                                         materialTitle generatedData of
                                    (Some e, ev4) \<Rightarrow> thrown e (ev1 @ ev2 @ ev3 @ ev4)
                                  | (None, ev4) \<Rightarrow>
                                      (Inr (Some True), ev1 @ ev2 @ ev3 @ ev4)))))))"

text \<open>
  The page's state: the two inputs, the \<open>loading\<close> flag (\<open>busy\<close>) and the progress lines
  shown so far.
\<close>

datatype progress_step = Generating | Generated | Analyzing | Creating | AllDone

record materials =
  text_input :: string
  topic :: string
  busy :: bool
  progress :: "progress_step list"

text \<open>\<open>error.message || fallback\<close> as the \<open>catch\<close> blocks pass it to the notification.\<close>

fun message_or :: "error \<Rightarrow> string \<Rightarrow> notice" where
  "message_or (Err m) fallback = (if m = [] then Text fallback else Text m)"
| "message_or (TypeError p) fallback = MessageOf (TypeError p)"

definition generate_failed ::
  "materials \<Rightarrow> string \<Rightarrow> string \<Rightarrow> error \<Rightarrow> event list \<Rightarrow> materials \<times> event list" where
  "generate_failed st label fallback e evs =
     (st\<lparr>busy := False, progress := []\<rparr>,
      evs @ [ConsoleError label, ToastError (message_or e fallback)])"

definition handleTopicGenerate ::
  "jsval reply \<Rightarrow> fanout_replies \<Rightarrow> string option \<Rightarrow> materials \<Rightarrow> materials \<times> event list" where
  "handleTopicGenerate invoked rs user st =
     (if trim (topic st) = [] then (st, [ToastError (Text ''Please enter a topic'')])
      else
        (let ev1 = [Invoke ''generate-from-topic'' (TopicBody (trim (topic st)))];
             failed = generate_failed st ''Error generating from topic:''
                        ''Failed to generate materials''
         in case invoked of
              Rejected e \<Rightarrow> failed e ev1
            | Fulfilled d (Some e) \<Rightarrow> failed e ev1
            | Fulfilled d None \<Rightarrow>
                (let data = (case d of None \<Rightarrow> JNull | Some v \<Rightarrow> v)
                 in case get data ''title'' of
                      Inl e \<Rightarrow> failed e ev1
                    | Inr t \<Rightarrow>
                        (case saveMaterialAndContent rs user (js_or t (JStr (topic st)))
                                (topic st) ''ai_generated'' data of
                           (Inl e, ev2) \<Rightarrow> failed e (ev1 @ ev2)
                         | (Inr done, ev2) \<Rightarrow>
                             (st\<lparr>busy := False, progress := [Generating, Generated, AllDone]\<rparr>,
                              ev1 @ ev2 @
                              [Timeout 1500 [ToastSuccess ''Study materials created successfully!'',
                                             Navigate ''/notes'']])))))"

definition handleTextSubmit ::
  "jsval reply \<Rightarrow> fanout_replies \<Rightarrow> string option \<Rightarrow> materials \<Rightarrow> materials \<times> event list" where
  "handleTextSubmit invoked rs user st =
     (if trim (text_input st) = []
      then (st, [ToastError (Text ''Please enter some text to analyze'')])
      else
        (let ev1 = [Invoke ''process-material''
                      (ContentBody (trim (text_input st))
                                   (take 100 (trim (text_input st)) @ ''...''))];
             failed = generate_failed st ''Error processing material:''
                        ''Failed to process material''
         in case invoked of
              Rejected e \<Rightarrow> failed e ev1
            | Fulfilled d (Some e) \<Rightarrow> failed e ev1
            | Fulfilled d None \<Rightarrow>
                (case saveMaterialAndContent rs user (JStr (take 100 (text_input st) @ ''...''))
                        (text_input st) ''paste'' (case d of None \<Rightarrow> JNull | Some v \<Rightarrow> v) of
                   (Inl e, ev2) \<Rightarrow> failed e (ev1 @ ev2)
                 | (Inr done, ev2) \<Rightarrow>
                     (st\<lparr>busy := False, progress := [Analyzing, Creating, AllDone]\<rparr>,
                      ev1 @ ev2 @
                      [Timeout 1500 [ToastSuccess ''Material processed successfully!'',
                                     ClearText, Navigate ''/notes'']]))))"

section \<open>The edge functions (process-material, generate-from-topic)\<close>

text \<open>
  Both functions treat the text of the completion with the same lines. \<open>fence\<close> is the
  three backquotes.
\<close>

definition fence :: string where
  "fence = [CHR 0x60, CHR 0x60, CHR 0x60]"

text \<open>\<open>s.replace(/^P\s*/, '')\<close> for a literal \<open>P\<close>, and \<open>s.replace(/\s*```$/, '')\<close>.\<close>

definition strip_opening :: "string \<Rightarrow> string \<Rightarrow> string" where
  "strip_opening p s = (if startsWith s p then dropWhile is_space (drop (length p) s) else s)"

definition strip_closing :: "string \<Rightarrow> string" where
  "strip_closing s =
     (if startsWith (rev s) (rev fence) then rev (dropWhile is_space (drop 3 (rev s))) else s)"

definition clean_content :: "string \<Rightarrow> string" where
  "clean_content aiContent =
     (let cleanedContent = trim aiContent
      in if startsWith cleanedContent (fence @ ''json'')
         then strip_closing (strip_opening (fence @ ''json'') cleanedContent)
         else if startsWith cleanedContent fence
         then strip_closing (strip_opening fence cleanedContent)
         else cleanedContent)"

text \<open>
  From the completion's text to the function's answer. \<open>JSON_parse\<close> is the parser of the
  runtime, \<open>None\<close> where it throws. \<open>aiContent\<close> is \<open>None\<close> when the completion has no
  text. A thrown error is answered by the outer \<open>catch\<close> with status 500 and its message.
\<close>

datatype body = JsonBody jsval | ErrorBody string

datatype response = Response nat body

definition parse_completion :: "(string \<Rightarrow> jsval option) \<Rightarrow> string option \<Rightarrow> string + jsval" where
  "parse_completion JSON_parse aiContent =
     (case aiContent of
        None \<Rightarrow> Inl ''No content generated''
      | Some c \<Rightarrow>
          if c = [] then Inl ''No content generated''
          else (case JSON_parse (clean_content c) of
                  None \<Rightarrow> Inl ''AI generated invalid JSON format''
                | Some parsedContent \<Rightarrow> Inr parsedContent))"

definition respond :: "string + jsval \<Rightarrow> response" where
  "respond r =
     (case r of
        Inr parsedContent \<Rightarrow> Response 200 (JsonBody parsedContent)
      | Inl errorMessage \<Rightarrow> Response 500 (ErrorBody errorMessage))"

section \<open>Notions of the specification\<close>

text \<open>The ids of the questions whose stored answer is exactly the correct answer.\<close>

definition correct_ids :: "question list \<Rightarrow> (string \<rightharpoonup> string) \<Rightarrow> string set" where
  "correct_ids qs answers =
     {i. \<exists>q \<in> set qs. q_id q = i \<and> answers i = Some (correct_answer q)}"

text \<open>Options that are missing or empty.\<close>

definition no_options :: "jsval set" where
  "no_options = {JUndefined, JNull, JArr [], JObj [], JStr []}"

text \<open>The events that write to the storage service or call an edge function.\<close>

fun is_write :: "event \<Rightarrow> bool" where
  "is_write (InsertAttempt r) = True"
| "is_write (InsertMaterial r) = True"
| "is_write (InsertNote r) = True"
| "is_write (InsertFlashcards r) = True"
| "is_write (InsertQuiz r) = True"
| "is_write (InsertQuestions r) = True"
| "is_write (DeleteQuestions x) = True"
| "is_write (DeleteQuiz x) = True"
| "is_write ev = False"

fun is_network :: "event \<Rightarrow> bool" where
  "is_network (Invoke f b) = True"
| "is_network (SelectQuestions x) = True"
| "is_network ev = is_write ev"

text \<open>The rows the fan-out builds from an entry that is neither \<open>null\<close> nor \<open>undefined\<close>.\<close>

definition is_entry :: "jsval \<Rightarrow> bool" where
  "is_entry v = (v \<noteq> JNull \<and> v \<noteq> JUndefined)"

definition flashcard_row_of :: "string \<Rightarrow> string \<Rightarrow> jsval \<Rightarrow> flashcard_row" where
  "flashcard_row_of uid mid entry =
     \<lparr>flashcard_user_id = uid, flashcard_material_id = mid,
      flashcard_question = read entry ''question'', flashcard_answer = read entry ''answer'',
      difficulty = js_or (read entry ''difficulty'') (JStr ''medium'')\<rparr>"

definition question_row_of :: "string \<Rightarrow> jsval \<Rightarrow> question_row" where
  "question_row_of qid q =
     \<lparr>row_quiz_id = qid, row_question_text = read q ''question'',
      row_question_type = read q ''type'', row_options = js_or (read q ''options'') JNull,
      row_correct_answer = read q ''correct_answer'',
      row_explanation = js_or (read q ''explanation'') JNull\<rparr>"

section \<open>Scenarios\<close>

definition quiz1 :: quiz where
  "quiz1 = \<lparr>quiz_id = ''z1'', quiz_title = ''Osmosis - Quiz'', created_at = ''2025-11-05''\<rparr>"

definition quiz2 :: quiz where
  "quiz2 = \<lparr>quiz_id = ''z2'', quiz_title = ''Cells - Quiz'', created_at = ''2025-11-06''\<rparr>"

definition question1 :: question where
  "question1 = \<lparr>q_id = ''q1'', question_text = ''Capital of France?'',
                 question_type = ''multiple_choice'',
                 options = JArr [JStr ''Paris'', JStr ''Rome''],
                 correct_answer = ''Paris'', explanation = None\<rparr>"

definition question2 :: question where
  "question2 = \<lparr>q_id = ''q2'', question_text = ''Powerhouse of the cell?'',
                 question_type = ''multiple_choice'',
                 options = JArr [JStr ''Mitochondria'', JStr ''Nucleus''],
                 correct_answer = ''Mitochondria'', explanation = Some ''It makes ATP''\<rparr>"

definition question3 :: question where
  "question3 = \<lparr>q_id = ''q3'', question_text = ''Water is wet'',
                 question_type = ''true_false'',
                 options = JObj [(''a'', JStr ''True''), (''b'', JStr ''False'')],
                 correct_answer = ''True'', explanation = None\<rparr>"

text \<open>Two questions that cannot be played: no options, and an empty list of options.\<close>

definition question4 :: question where
  "question4 = \<lparr>q_id = ''q4'', question_text = ''Define osmosis'',
                 question_type = ''short_answer'', options = JNull,
                 correct_answer = ''Diffusion of water'', explanation = None\<rparr>"

definition question5 :: question where
  "question5 = \<lparr>q_id = ''q5'', question_text = ''Define diffusion'',
                 question_type = ''short_answer'', options = JArr [],
                 correct_answer = ''Spreading out'', explanation = None\<rparr>"

text \<open>The list of quizzes, before any quiz is opened.\<close>

definition browsing :: session where
  "browsing = \<lparr>quizzes = [quiz1, quiz2], selectedQuiz = None, questions = [],
                currentQuestionIndex = 0, userAnswers = Map.empty, showResults = False,
                loading = False, deleteDialogOpen = False, quizToDelete = None,
                deleting = False\<rparr>"

text \<open>
  On the last of three questions: the first answered correctly, the second with the right
  word in the wrong case, the third not answered.
\<close>

definition last_question :: session where
  "last_question = browsing\<lparr>selectedQuiz := Some quiz1,
                            questions := [question1, question2, question3],
                            currentQuestionIndex := 2,
                            userAnswers := [''q1'' \<mapsto> ''Paris'', ''q2'' \<mapsto> ''mitochondria'']\<rparr>"

text \<open>The confirmation dialog open on the first quiz, and a store holding both quizzes.\<close>

definition confirming :: session where
  "confirming = browsing\<lparr>deleteDialogOpen := True, quizToDelete := Some ''z1''\<rparr>"

definition store :: storage where
  "store = \<lparr>quiz_rows = [quiz1, quiz2],
             question_rows = [(''z1'', question1), (''z2'', question2), (''z1'', question3)]\<rparr>"

text \<open>Replies of a storage service that carries out every insert of the fan-out.\<close>

definition all_ok :: fanout_replies where
  "all_ok = \<lparr>material_reply = Fulfilled (Some ''m1'') None,
             note_reply = Fulfilled None None,
             flashcards_reply = Fulfilled None None,
             quiz_reply = Fulfilled (Some ''z1'') None,
             questions_reply = Fulfilled None None\<rparr>"

text \<open>The same service refusing the insert of the note.\<close>

definition note_refused :: fanout_replies where
  "note_refused =
     all_ok\<lparr>note_reply := Fulfilled None (Some (Err ''violates row-level security policy''))\<rparr>"

text \<open>Generated data with an empty list of quiz questions, and with a note and a flashcard.\<close>

definition empty_quiz_result :: jsval where
  "empty_quiz_result = JObj [(''summary'', JStr ''Water moves''), (''quiz_questions'', JArr [])]"

definition notes_and_cards :: jsval where
  "notes_and_cards =
     JObj [(''summary'', JStr ''Water moves''),
           (''key_points'', JArr [JStr ''Solvent crosses the membrane'']),
           (''flashcards'', JArr [JObj [(''question'', JStr ''What moves?''),
                                        (''answer'', JStr ''Water'')]])]"

text \<open>A parser that accepts the empty object only, and a page with blank inputs.\<close>

definition only_empty_object :: "string \<Rightarrow> jsval option" where
  "only_empty_object s = (if s = ''{}'' then Some (JObj []) else None)"

definition blank_page :: materials where
  "blank_page = \<lparr>text_input = [CHR 0x0A, CHR 0x20], topic = ''   '', busy = False, progress = []\<rparr>"

section \<open>Auxiliary facts\<close>

subsection \<open>Scoring\<close>

lemma score_fold_count:
  "fold (\<lambda>q acc. acc + (if answers (q_id q) = Some (correct_answer q) then 1 else 0)) qs (k::nat)
     = k + length (filter (\<lambda>q. answers (q_id q) = Some (correct_answer q)) qs)"
  by (induction qs arbitrary: k) auto

lemma score_of_filter:
  "score_of qs answers = length (filter (\<lambda>q. answers (q_id q) = Some (correct_answer q)) qs)"
  by (simp add: score_of_def score_fold_count)

lemma card_matching_ids:
  assumes "distinct (map q_id qs)"
  shows "card {i. \<exists>q \<in> set qs. q_id q = i \<and> P q} = length (filter P qs)"
proof -
  from assms have inj: "inj_on q_id (set qs)" and dq: "distinct qs"
    by (simp_all add: distinct_map)
  have "{i. \<exists>q \<in> set qs. q_id q = i \<and> P q} = q_id ` set (filter P qs)" by auto
  moreover have "card (q_id ` set (filter P qs)) = card (set (filter P qs))"
    by (rule card_image) (rule inj_on_subset[OF inj], auto)
  moreover have "card (set (filter P qs)) = length (filter P qs)"
    by (rule distinct_card) (simp add: dq)
  ultimately show ?thesis by presburger
qed

lemma score_of_correct_ids:
  assumes "distinct (map q_id qs)"
  shows "score_of qs answers = card (correct_ids qs answers)"
proof -
  have "correct_ids qs answers
      = {i. \<exists>q \<in> set qs. q_id q = i \<and> answers (q_id q) = Some (correct_answer q)}"
    by (auto simp: correct_ids_def)
  then show ?thesis
    using card_matching_ids[OF assms, of "\<lambda>q. answers (q_id q) = Some (correct_answer q)"]
    by (simp add: score_of_filter)
qed

subsection \<open>Loading and navigating\<close>

lemma has_options_nonempty: "has_options v \<Longrightarrow> v \<notin> no_options"
  by (auto simp: has_options_def no_options_def js_or_def)

lemma act_keeps:
  "questions (act a st) = questions st \<and> selectedQuiz (act a st) = selectedQuiz st"
  by (cases a) (simp_all add: handleNext_def handlePrevious_def handleAnswerSelect_def)

lemma run_keeps_questions: "questions (run as st) = questions st"
  unfolding run_def by (induction as arbitrary: st) (simp_all add: act_keeps)

lemma run_keeps_selected: "selectedQuiz (run as st) = selectedQuiz st"
  unfolding run_def by (induction as arbitrary: st) (simp_all add: act_keeps)

lemma act_in_range:
  "0 \<le> currentQuestionIndex st \<Longrightarrow> currentQuestionIndex st < int (length (questions st)) \<Longrightarrow>
   0 \<le> currentQuestionIndex (act a st) \<and>
   currentQuestionIndex (act a st) < int (length (questions (act a st)))"
  by (cases a) (auto simp: handleNext_def handlePrevious_def handleAnswerSelect_def)

lemma run_in_range:
  "0 \<le> currentQuestionIndex st \<Longrightarrow> currentQuestionIndex st < int (length (questions st)) \<Longrightarrow>
   0 \<le> currentQuestionIndex (run as st) \<and>
   currentQuestionIndex (run as st) < int (length (questions (run as st)))"
  unfolding run_def
proof (induction as arbitrary: st)
  case Nil
  then show ?case by simp
next
  case (Cons a as)
  from act_in_range[OF Cons.prems, of a] show ?case
    using Cons.IH[of "act a st"] by simp
qed

subsection \<open>White space and fences\<close>

lemma trim_all_space: "(\<forall>c \<in> set s. is_space c) \<Longrightarrow> trim s = []"
proof -
  assume "\<forall>c \<in> set s. is_space c"
  then have d: "dropWhile is_space s = []" by simp
  show ?thesis unfolding trim_def d by simp
qed

lemma startsWith_append: "startsWith (p @ s) p"
  by (induction p) simp_all

lemma not_space_backquote: "\<not> is_space (CHR 0x60)"
  by (simp add: is_space_def)

lemma dropWhile_spaces_fence: "dropWhile is_space (fence @ s) = fence @ s"
  by (simp add: fence_def not_space_backquote)

lemma strip_closing_fence: "strip_closing (x @ fence) = rev (dropWhile is_space (rev x))"
  by (simp add: strip_closing_def startsWith_append) (simp add: fence_def)

lemma strip_opening_spaces:
  assumes "\<forall>c \<in> set ws1. is_space c"
  shows "strip_opening p (p @ ws1 @ rest) = dropWhile is_space rest"
  using assms by (simp add: strip_opening_def startsWith_append dropWhile_append2)

lemma trim_fenced: "trim (fence @ s @ fence) = fence @ s @ fence"
proof -
  have a: "dropWhile is_space (fence @ s @ fence) = fence @ s @ fence"
    by (rule dropWhile_spaces_fence)
  have "rev (fence @ s @ fence) = fence @ rev s @ fence" by (simp add: fence_def)
  then have b: "dropWhile is_space (rev (fence @ s @ fence)) = rev (fence @ s @ fence)"
    using dropWhile_spaces_fence[of "rev s @ fence"] by simp
  show ?thesis unfolding trim_def a b by simp
qed

lemma unfence_body:
  assumes "\<forall>c \<in> set ws2. is_space c"
  shows "strip_closing (dropWhile is_space (body @ ws2 @ fence)) = trim body"
proof (cases "\<forall>c \<in> set body. is_space c")
  case True
  then have "dropWhile is_space (body @ ws2 @ fence) = fence"
    using assms dropWhile_spaces_fence[of "[]"] by (simp add: dropWhile_append2)
  then show ?thesis using True strip_closing_fence[of "[]"] by (simp add: trim_all_space)
next
  case False
  then obtain c where c: "c \<in> set body" "\<not> is_space c" by blast
  then have "dropWhile is_space (body @ ws2 @ fence) = (dropWhile is_space body @ ws2) @ fence"
    by (simp add: dropWhile_append1)
  then have "strip_closing (dropWhile is_space (body @ ws2 @ fence))
               = rev (dropWhile is_space (rev ws2 @ rev (dropWhile is_space body)))"
    using strip_closing_fence[of "dropWhile is_space body @ ws2"] by simp
  also have "\<dots> = rev (dropWhile is_space (rev (dropWhile is_space body)))"
    using assms by (subst dropWhile_append2) auto
  finally show ?thesis by (simp add: trim_def)
qed

lemma clean_labeled:
  assumes "\<forall>c \<in> set ws1. is_space c" and "\<forall>c \<in> set ws2. is_space c"
  shows "clean_content (fence @ ''json'' @ ws1 @ body @ ws2 @ fence) = trim body"
proof -
  have t: "trim (fence @ ''json'' @ ws1 @ body @ ws2 @ fence)
             = (fence @ ''json'') @ ws1 @ (body @ ws2 @ fence)"
    using trim_fenced[of "''json'' @ ws1 @ body @ ws2"] by simp
  show ?thesis unfolding clean_content_def t Let_def
    using strip_opening_spaces[OF assms(1), of "fence @ ''json''" "body @ ws2 @ fence"]
          unfence_body[OF assms(2), of body]
    by (simp only: startsWith_append if_True)
qed

lemma startsWith_same_prefix: "startsWith (p @ s) (p @ q) = startsWith s q"
  by (induction p) simp_all

lemma clean_unlabeled:
  assumes "\<not> startsWith (ws1 @ body @ ws2 @ fence) ''json''"
      and "\<forall>c \<in> set ws1. is_space c" and "\<forall>c \<in> set ws2. is_space c"
  shows "clean_content (fence @ ws1 @ body @ ws2 @ fence) = trim body"
proof -
  have t: "trim (fence @ ws1 @ body @ ws2 @ fence) = fence @ ws1 @ (body @ ws2 @ fence)"
    using trim_fenced[of "ws1 @ body @ ws2"] by simp
  have n: "\<not> startsWith (fence @ ws1 @ (body @ ws2 @ fence)) (fence @ ''json'')"
    using assms(1) startsWith_same_prefix[of fence "ws1 @ (body @ ws2 @ fence)" "''json''"]
    by simp
  show ?thesis unfolding clean_content_def t Let_def
    using strip_opening_spaces[OF assms(2), of fence "body @ ws2 @ fence"]
          unfence_body[OF assms(3), of body] n
    by (simp only: startsWith_append if_True if_False simp_thms)
qed

lemma parse_completion_text:
  "c \<noteq> [] \<Longrightarrow> parse_completion JSON_parse (Some c) =
     (case JSON_parse (clean_content c) of
        None \<Rightarrow> Inl ''AI generated invalid JSON format''
      | Some parsedContent \<Rightarrow> Inr parsedContent)"
  by (simp add: parse_completion_def)

subsection \<open>The steps of the fan-out\<close>

lemma map_rows_total:
  "(\<forall>x \<in> set xs. f x = Inr (g x)) \<Longrightarrow> map_rows f xs = Inr (map g xs)"
  by (induction xs) simp_all

lemma get_defined: "v \<noteq> JNull \<Longrightarrow> v \<noteq> JUndefined \<Longrightarrow> get v p = Inr (read v p)"
  by (cases v) (simp_all add: read_def)

lemma truthy_js_or: "truthy (js_or a b) = (truthy a \<or> truthy b)"
  by (simp add: js_or_def)

lemma isArray_truthy: "isArray v \<Longrightarrow> truthy v"
  by (cases v) simp_all

lemma flashcard_of_entry:
  "is_entry c \<Longrightarrow> flashcard_of uid (Some mid) c = Inr (flashcard_row_of uid mid c)"
  by (simp add: flashcard_of_def flashcard_row_of_def is_entry_def get_defined)

lemma question_of_entry:
  "is_entry q \<Longrightarrow> question_of qid q = Inr (question_row_of qid q)"
  by (simp add: question_of_def question_row_of_def is_entry_def get_defined)

lemma save_notes_ok:
  "\<forall>e. r \<noteq> Rejected e \<Longrightarrow>
   save_notes r uid (Some mid) t g =
     (None, if truthy (read g ''key_points'') \<or> truthy (read g ''examples'')
            then [InsertNote \<lparr>note_user_id = uid, note_material_id = mid,
                              note_title = (t, '' - Notes''), note_content = read g ''summary'',
                              key_points = read g ''key_points'', examples = read g ''examples''\<rparr>]
            else [])"
  by (cases r) (simp_all add: save_notes_def truthy_js_or Let_def)

lemma save_flashcards_ok:
  assumes "\<forall>e. r \<noteq> Rejected e" and "\<forall>c \<in> set (elements (read g ''flashcards'')). is_entry c"
  shows "save_flashcards r uid (Some mid) g =
     (None, if isArray (read g ''flashcards'')
            then [InsertFlashcards (map (flashcard_row_of uid mid) (elements (read g ''flashcards'')))]
            else [])"
proof -
  have m: "map_rows (flashcard_of uid (Some mid)) (elements (read g ''flashcards''))
            = Inr (map (flashcard_row_of uid mid) (elements (read g ''flashcards'')))"
    by (rule map_rows_total) (use assms(2) in \<open>simp add: flashcard_of_entry\<close>)
  show ?thesis using assms(1)
    by (cases r) (auto simp: save_flashcards_def Let_def m isArray_truthy)
qed

lemma save_quiz_ok:
  assumes "\<forall>e. rqs \<noteq> Rejected e"
      and "\<forall>q \<in> set (elements (read g ''quiz_questions'')). is_entry q"
  shows "save_quiz (Fulfilled (Some qid) None) rqs uid (Some mid) t g =
     (None, if isArray (read g ''quiz_questions'')
            then [InsertQuiz \<lparr>quiz_user_id = uid, quiz_material_id = mid,
                              quiz_row_title = (t, '' - Quiz'')\<rparr>,
                  InsertQuestions (map (question_row_of qid) (elements (read g ''quiz_questions'')))]
            else [])"
proof -
  have m: "map_rows (question_of qid) (elements (read g ''quiz_questions''))
            = Inr (map (question_row_of qid) (elements (read g ''quiz_questions'')))"
    by (rule map_rows_total) (use assms(2) in \<open>simp add: question_of_entry\<close>)
  show ?thesis using assms(1)
    by (cases rqs) (auto simp: save_quiz_def Let_def m isArray_truthy)
qed

subsection \<open>Percentages\<close>

text \<open>
  One of three is stored as 33.33333333333333 and shown as 33. Twenty-three of forty is
  stored as 57.49999999999999 and shown as 57, where the exact quotient 57.5 would be
  shown as 58.
\<close>

lemma one_of_three_stored:
  "js_times (js_div 1 3) 100 = Num (2345624805922133 / 70368744177664)"
  by code_simp

lemma one_of_three_shown:
  "toFixed0 (Num (2345624805922133 / 70368744177664)) = Digits 33"
  by code_simp

lemma twenty_three_of_forty:
  "js_times (js_div 23 40) 100 = Num (8092405580431359 / 140737488355328)
   \<and> toFixed0 (js_times (js_div 23 40) 100) = Digits 57
   \<and> round (23 / 40 * 100 :: rat) = 58"
  by code_simp

section \<open>Claims about the quiz page\<close>

text \<open>
  C1. For every loaded set of questions with distinct ids and every mapping of answers,
  the score that \<open>handleSubmit\<close> computes, and that the results screen computes again, is
  the number of question ids whose stored answer is the very string \<open>correct_answer\<close>;
  string equality distinguishes case. The percentage written with the attempt is the
  score divided by the number of questions, times one hundred, in the arithmetic of the
  numbers: the quotient rounded to a number, then the product rounded to a number, and
  not rounded to an integer. The notification and the results screen show the integer
  nearest to that stored number.
\<close>

theorem score_counts_exact_matches:
  assumes "distinct (map q_id (questions st))" and "questions st \<noteq> []"
  shows "score_of (questions st) (userAnswers st)
           = card (correct_ids (questions st) (userAnswers st))
       \<and> (\<exists>rest. snd (handleSubmit r user st) =
             InsertAttempt
               \<lparr>attempt_user_id = user,
                attempt_quiz_id = map_option quiz_id (selectedQuiz st),
                attempt_score =
                  js_times (js_div (card (correct_ids (questions st) (userAnswers st)))
                                   (length (questions st))) 100,
                total_questions = length (questions st)\<rparr> # rest)
       \<and> snd (handleSubmit (Fulfilled d e) user st) ! 1 =
             ToastScore (toFixed0
               (js_times (js_div (card (correct_ids (questions st) (userAnswers st)))
                                 (length (questions st))) 100))
       \<and> results_view st =
             (card (correct_ids (questions st) (userAnswers st)),
              toFixed0 (js_times (js_div (card (correct_ids (questions st) (userAnswers st)))
                                         (length (questions st))) 100),
              length (questions st))
       \<and> js_times (js_div (card (correct_ids (questions st) (userAnswers st)))
                          (length (questions st))) 100
           = Num (to_double
                    (to_double (of_nat (card (correct_ids (questions st) (userAnswers st)))
                                / of_nat (length (questions st))) * 100))
       \<and> toFixed0 (js_times (js_div (card (correct_ids (questions st) (userAnswers st)))
                                    (length (questions st))) 100)
           = Digits (round
               (to_double
                  (to_double (of_nat (card (correct_ids (questions st) (userAnswers st)))
                              / of_nat (length (questions st))) * 100)))"
proof -
  note s = score_of_correct_ids[OF assms(1), of "userAnswers st"]
  have n: "length (questions st) \<noteq> 0" using assms(2) by simp
  have a: "\<exists>rest. snd (handleSubmit r user st) =
             InsertAttempt
               \<lparr>attempt_user_id = user,
                attempt_quiz_id = map_option quiz_id (selectedQuiz st),
                attempt_score =
                  js_times (js_div (card (correct_ids (questions st) (userAnswers st)))
                                   (length (questions st))) 100,
                total_questions = length (questions st)\<rparr> # rest"
    by (cases r) (simp_all add: handleSubmit_def Let_def s)
  have b: "snd (handleSubmit (Fulfilled d e) user st) ! 1 =
             ToastScore (toFixed0
               (js_times (js_div (card (correct_ids (questions st) (userAnswers st)))
                                 (length (questions st))) 100))"
    by (simp add: handleSubmit_def Let_def s)
  have c: "results_view st =
             (card (correct_ids (questions st) (userAnswers st)),
              toFixed0 (js_times (js_div (card (correct_ids (questions st) (userAnswers st)))
                                         (length (questions st))) 100),
              length (questions st))"
    by (simp add: results_view_def Let_def s)
  have p: "js_times (js_div (card (correct_ids (questions st) (userAnswers st)))
                          (length (questions st))) 100
           = Num (to_double
                    (to_double (of_nat (card (correct_ids (questions st) (userAnswers st)))
                                / of_nat (length (questions st))) * 100))"
    using n by (simp add: js_div_def)
  have f: "toFixed0 (js_times (js_div (card (correct_ids (questions st) (userAnswers st)))
                                    (length (questions st))) 100)
           = Digits (round
               (to_double
                  (to_double (of_nat (card (correct_ids (questions st) (userAnswers st)))
                              / of_nat (length (questions st))) * 100)))"
    by (simp only: p toFixed0.simps)
  from s a b c p f show ?thesis by blast
qed

theorem score_counts_exact_matches_witness:
  "distinct (map q_id (questions last_question)) \<and> questions last_question \<noteq> []
   \<and> card (correct_ids (questions last_question) (userAnswers last_question)) = 1
   \<and> results_view last_question = (1, Digits 33, 3)
   \<and> hd (snd (handleSubmit (Fulfilled None None) (Some ''u1'') last_question)) =
       InsertAttempt \<lparr>attempt_user_id = Some ''u1'', attempt_quiz_id = Some ''z1'',
                      attempt_score = Num (2345624805922133 / 70368744177664),
                      total_questions = 3\<rparr>"
proof -
  have h1: "distinct (map q_id (questions last_question))"
    by (simp add: last_question_def question1_def question2_def question3_def)
  have h2: "questions last_question \<noteq> []"
    by (simp add: last_question_def)
  have sc: "score_of (questions last_question) (userAnswers last_question) = 1"
    by (simp add: score_of_def last_question_def question1_def question2_def question3_def)
  have l: "length (questions last_question) = 3" by (simp add: last_question_def)
  have z: "map_option quiz_id (selectedQuiz last_question) = Some ''z1''"
    by (simp add: last_question_def quiz1_def)
  note t = score_counts_exact_matches[OF h1 h2, of "Fulfilled None None" "Some ''u1''" None None]
  from t sc have k: "card (correct_ids (questions last_question) (userAnswers last_question)) = 1"
    by simp
  from t have "results_view last_question =
      (card (correct_ids (questions last_question) (userAnswers last_question)),
       toFixed0 (js_times (js_div (card (correct_ids (questions last_question)
                                                      (userAnswers last_question)))
                                  (length (questions last_question))) 100),
       length (questions last_question))"
    by blast
  then have v: "results_view last_question = (1, Digits 33, 3)"
    unfolding k l one_of_three_stored one_of_three_shown .
  from t obtain rest where
    "snd (handleSubmit (Fulfilled None None) (Some ''u1'') last_question) =
       InsertAttempt
         \<lparr>attempt_user_id = Some ''u1'',
          attempt_quiz_id = map_option quiz_id (selectedQuiz last_question),
          attempt_score =
            js_times (js_div (card (correct_ids (questions last_question)
                                                (userAnswers last_question)))
                             (length (questions last_question))) 100,
          total_questions = length (questions last_question)\<rparr> # rest"
    by blast
  then have w: "hd (snd (handleSubmit (Fulfilled None None) (Some ''u1'') last_question)) =
       InsertAttempt \<lparr>attempt_user_id = Some ''u1'', attempt_quiz_id = Some ''z1'',
                      attempt_score = Num (2345624805922133 / 70368744177664),
                      total_questions = 3\<rparr>"
    unfolding k l z one_of_three_stored by simp
  from h1 h2 k v w show ?thesis by blast
qed

text \<open>
  C3 asks that a failed insert of the attempt is reported and that the results are
  shown all the same. The storage client answers a failed insert with an error object.
  \<open>handleSubmit\<close> awaits the insert and does not read its answer: here the insert of
  the attempt fails, and the page enters the results screen with the notification of
  completion and reports nothing.
\<close>

theorem attempt_error_unreported:
  "handleSubmit (Fulfilled None (Some (Err ''Failed to fetch''))) (Some ''u1'') last_question =
     (last_question\<lparr>showResults := True\<rparr>,
      [InsertAttempt \<lparr>attempt_user_id = Some ''u1'', attempt_quiz_id = Some ''z1'',
                      attempt_score = Num (2345624805922133 / 70368744177664),
                      total_questions = 3\<rparr>,
       ToastScore (Digits 33)])"
proof -
  have sc: "score_of (questions last_question) (userAnswers last_question) = 1"
    by (simp add: score_of_def last_question_def question1_def question2_def question3_def)
  have l: "length (questions last_question) = 3" by (simp add: last_question_def)
  have z: "map_option quiz_id (selectedQuiz last_question) = Some ''z1''"
    by (simp add: last_question_def quiz1_def)
  show ?thesis
    unfolding handleSubmit_def Let_def sc l z one_of_three_stored one_of_three_shown
    by simp
qed

text \<open>
  C4. The questions that \<open>loadQuiz\<close> keeps are those of the fetched rows that pass the
  filter, and none of them has missing or empty options; a row whose options are missing
  or empty is not kept. When no row passes, the load ends with the notification ``No
  valid multiple choice questions found in this quiz'' and changes nothing but the
  loading flag, which it clears: from the list of quizzes the state is unchanged and the
  list is still shown. Otherwise the quiz is entered on its first question with no
  answers.
\<close>

theorem loadQuiz_playable:
  "(\<forall>q \<in> set (validQuestions d). options q \<notin> no_options)
   \<and> (\<forall>rows. d = Some rows \<longrightarrow>
         (\<forall>q \<in> set rows. options q \<in> no_options \<longrightarrow> q \<notin> set (validQuestions d)))
   \<and> loadQuiz (Fulfilled d None) quiz st =
       (if validQuestions d = []
        then (st\<lparr>loading := False\<rparr>,
              [SelectQuestions (quiz_id quiz),
               ToastError (Text ''No valid multiple choice questions found in this quiz'')])
        else (st\<lparr>questions := validQuestions d, selectedQuiz := Some quiz,
                 currentQuestionIndex := 0, userAnswers := Map.empty,
                 showResults := False, loading := False\<rparr>,
              [SelectQuestions (quiz_id quiz)]))
   \<and> (validQuestions d = [] \<and> render st = BrowsingView \<longrightarrow>
         fst (loadQuiz (Fulfilled d None) quiz st) = st)"
proof -
  have a: "\<forall>q \<in> set (validQuestions d). options q \<notin> no_options"
    by (auto simp: validQuestions_def dest: has_options_nonempty)
  have b: "\<forall>rows. d = Some rows \<longrightarrow>
         (\<forall>q \<in> set rows. options q \<in> no_options \<longrightarrow> q \<notin> set (validQuestions d))"
    using a by blast
  have c: "loadQuiz (Fulfilled d None) quiz st =
       (if validQuestions d = []
        then (st\<lparr>loading := False\<rparr>,
              [SelectQuestions (quiz_id quiz),
               ToastError (Text ''No valid multiple choice questions found in this quiz'')])
        else (st\<lparr>questions := validQuestions d, selectedQuiz := Some quiz,
                 currentQuestionIndex := 0, userAnswers := Map.empty,
                 showResults := False, loading := False\<rparr>,
              [SelectQuestions (quiz_id quiz)]))"
    by (simp add: loadQuiz_def Let_def)
  have e: "validQuestions d = [] \<and> render st = BrowsingView \<longrightarrow>
         fst (loadQuiz (Fulfilled d None) quiz st) = st"
    by (auto simp: c render_def split: if_splits)
  from a b c e show ?thesis by blast
qed

theorem loadQuiz_playable_witness:
  "validQuestions (Some [question4, question5]) = []
   \<and> render browsing = BrowsingView
   \<and> options question4 \<in> no_options
   \<and> question4 \<notin> set (validQuestions (Some [question4, question1]))
   \<and> options question1 \<notin> no_options
   \<and> loadQuiz (Fulfilled (Some [question4, question5]) None) quiz1 browsing =
       (browsing, [SelectQuestions ''z1'',
                   ToastError (Text ''No valid multiple choice questions found in this quiz'')])"
proof -
  have h1: "validQuestions (Some [question4, question5]) = []"
    by (simp add: validQuestions_def has_options_def question4_def question5_def)
  have h2: "render browsing = BrowsingView"
    by (simp add: render_def browsing_def)
  have h3: "options question4 \<in> no_options"
    by (simp add: question4_def no_options_def)
  have v: "validQuestions (Some [question4, question1]) = [question1]"
    by (simp add: validQuestions_def has_options_def question4_def question1_def)
  note t1 = loadQuiz_playable[of "Some [question4, question5]" quiz1 browsing]
  note t2 = loadQuiz_playable[of "Some [question4, question1]" quiz1 browsing]
  from t1 h1 h2 have l: "fst (loadQuiz (Fulfilled (Some [question4, question5]) None) quiz1 browsing)
                          = browsing"
    by blast
  from t1 h1 have
    "snd (loadQuiz (Fulfilled (Some [question4, question5]) None) quiz1 browsing) =
       [SelectQuestions ''z1'',
        ToastError (Text ''No valid multiple choice questions found in this quiz'')]"
    by (simp add: quiz1_def)
  with l have full: "loadQuiz (Fulfilled (Some [question4, question5]) None) quiz1 browsing =
       (browsing, [SelectQuestions ''z1'',
                   ToastError (Text ''No valid multiple choice questions found in this quiz'')])"
    by (simp add: prod_eq_iff)
  from t2 h3 have n4: "question4 \<notin> set (validQuestions (Some [question4, question1]))"
    by simp
  from t2 v have n1: "options question1 \<notin> no_options" by simp
  from h1 h2 h3 n4 n1 full show ?thesis by blast
qed

text \<open>
  C8. On the question screen, with the index inside the list of questions, \<open>Next\<close> moves
  it up by one but not beyond the last question and \<open>Previous\<close> moves it down by one but
  not below zero: \<open>Previous\<close> on the first question and \<open>Next\<close> on the last change
  nothing. After any sequence of \<open>Next\<close>, \<open>Previous\<close> and answer selections the index
  is still inside the list.
\<close>

theorem navigation_clamped:
  assumes "0 \<le> currentQuestionIndex st"
      and "currentQuestionIndex st < int (length (questions st))"
  shows "currentQuestionIndex (handleNext st)
           = min (currentQuestionIndex st + 1) (int (length (questions st)) - 1)
       \<and> currentQuestionIndex (handlePrevious st) = max (currentQuestionIndex st - 1) 0
       \<and> (currentQuestionIndex st = 0 \<longrightarrow> handlePrevious st = st)
       \<and> (currentQuestionIndex st = int (length (questions st)) - 1 \<longrightarrow> handleNext st = st)
       \<and> (\<forall>as. 0 \<le> currentQuestionIndex (run as st) \<and>
                currentQuestionIndex (run as st) < int (length (questions st)))"
  using assms run_in_range[OF assms]
  by (auto simp: handleNext_def handlePrevious_def run_keeps_questions)

theorem navigation_clamped_witness:
  "0 \<le> currentQuestionIndex last_question
   \<and> currentQuestionIndex last_question < int (length (questions last_question))
   \<and> currentQuestionIndex last_question = int (length (questions last_question)) - 1
   \<and> handleNext last_question = last_question
   \<and> currentQuestionIndex (handlePrevious last_question) = 1
   \<and> currentQuestionIndex (handlePrevious (handlePrevious last_question)) = 0
   \<and> handlePrevious (handlePrevious (handlePrevious last_question))
       = handlePrevious (handlePrevious last_question)
   \<and> 0 \<le> currentQuestionIndex (run [Next, Next, Answer ''q3'' ''True'', Previous] last_question)
   \<and> currentQuestionIndex (run [Next, Next, Answer ''q3'' ''True'', Previous] last_question) < 3"
proof -
  have h1: "0 \<le> currentQuestionIndex last_question"
    by (simp add: last_question_def)
  have h2: "currentQuestionIndex last_question < int (length (questions last_question))"
    by (simp add: last_question_def)
  have h3: "currentQuestionIndex last_question = int (length (questions last_question)) - 1"
    by (simp add: last_question_def)
  let ?p = "handlePrevious last_question"
  let ?pp = "handlePrevious ?p"
  have p: "currentQuestionIndex ?p = 1" "length (questions ?p) = 3"
    by (simp_all add: handlePrevious_def last_question_def)
  have pp: "currentQuestionIndex ?pp = 0" "length (questions ?pp) = 3"
    by (simp_all add: handlePrevious_def last_question_def)
  note t = navigation_clamped[OF h1 h2]
  from t h3 have n: "handleNext last_question = last_question" by blast
  from t have r: "0 \<le> currentQuestionIndex (run [Next, Next, Answer ''q3'' ''True'', Previous] last_question)
      \<and> currentQuestionIndex (run [Next, Next, Answer ''q3'' ''True'', Previous] last_question) < 3"
    by (simp add: last_question_def)
  have "handlePrevious ?pp = ?pp"
    using navigation_clamped[of ?pp] pp by simp
  with h1 h2 h3 n p(1) pp(1) r show ?thesis by simp
qed

text \<open>
  C9 asks that the questions of a quiz are deleted before the quiz, so that none is left
  even without the cascade of the storage. \<open>handleDeleteConfirm\<close> does send the delete
  of the questions first. The migration gives \<open>questions\<close> no policy for delete, so that
  request is answered without error and removes no row: in a store with two quizzes, the
  first of them with two questions, the questions are still there after it, they are
  still there when the delete of the quiz is then refused, and when it is carried out
  they go with the quiz by the cascade. The page takes the quiz out of its list by
  filtering and fetches nothing.
\<close>

theorem questions_delete_removes_nothing:
  "request Done Questions DeleteCmd (delete_questions_eq ''z1'') store = (Fulfilled None None, store)
   \<and> handleDeleteConfirm Done (Refused (Err ''timeout'')) store confirming =
       ((confirming\<lparr>deleting := False\<rparr>,
         [DeleteQuestions ''z1'', DeleteQuiz ''z1'', ConsoleError ''Error deleting quiz:'',
          ToastError (Text ''Failed to delete quiz'')]),
        store)
   \<and> handleDeleteConfirm Done Done store confirming =
       ((confirming\<lparr>quizzes := [quiz2], deleteDialogOpen := False, quizToDelete := None,
                    deleting := False\<rparr>,
         [DeleteQuestions ''z1'', DeleteQuiz ''z1'', ToastSuccess ''Quiz deleted successfully!'']),
        \<lparr>quiz_rows = [quiz2], question_rows = [(''z2'', question2)]\<rparr>)"
proof -
  have ids: "quiz_id quiz1 = ''z1''" "quiz_id quiz2 = ''z2''"
    by (simp_all add: quiz1_def quiz2_def)
  have np: "\<not> permitted Questions DeleteCmd" and p: "permitted Quizzes DeleteCmd"
    by (simp_all add: permitted_def policies_def)
  have q: "quizToDelete confirming = Some ''z1''" "quizzes confirming = [quiz1, quiz2]"
    by (simp_all add: confirming_def browsing_def)
  have a: "request Done Questions DeleteCmd (delete_questions_eq ''z1'') store
             = (Fulfilled None None, store)"
    by (simp add: request_def np)
  have r: "request (Refused (Err ''timeout'')) Quizzes DeleteCmd (delete_quizzes_eq ''z1'') store
             = (Fulfilled None (Some (Err ''timeout'')), store)"
    by (simp add: request_def)
  have d: "request Done Quizzes DeleteCmd (delete_quizzes_eq ''z1'') store
             = (Fulfilled None None, \<lparr>quiz_rows = [quiz2], question_rows = [(''z2'', question2)]\<rparr>)"
    by (simp add: request_def p delete_quizzes_eq_def store_def ids)
  have b: "handleDeleteConfirm Done (Refused (Err ''timeout'')) store confirming =
       ((confirming\<lparr>deleting := False\<rparr>,
         [DeleteQuestions ''z1'', DeleteQuiz ''z1'', ConsoleError ''Error deleting quiz:'',
          ToastError (Text ''Failed to delete quiz'')]),
        store)"
    by (simp add: handleDeleteConfirm_def q a r delete_failed_def)
  have c: "handleDeleteConfirm Done Done store confirming =
       ((confirming\<lparr>quizzes := [quiz2], deleteDialogOpen := False, quizToDelete := None,
                    deleting := False\<rparr>,
         [DeleteQuestions ''z1'', DeleteQuiz ''z1'', ToastSuccess ''Quiz deleted successfully!'']),
        \<lparr>quiz_rows = [quiz2], question_rows = [(''z2'', question2)]\<rparr>)"
    by (simp add: handleDeleteConfirm_def q a d ids)
  from a b c show ?thesis by blast
qed

text \<open>
  C10. After a quiz has been loaded and any sequence of \<open>Next\<close>, \<open>Previous\<close> and answer
  selections, the attempt row written by \<open>handleSubmit\<close> records as \<open>total_questions\<close>
  the number of fetched questions that passed the filter of \<open>loadQuiz\<close>, and its score is
  the number of correct answers among those same questions divided by that same number,
  times one hundred. A fetched question without options makes that number smaller than
  the number of rows fetched.
\<close>

theorem attempt_counts_playable:
  assumes "validQuestions d \<noteq> []"
  shows "(\<exists>rest. snd (handleSubmit r user (run as (fst (loadQuiz (Fulfilled d None) quiz st)))) =
           InsertAttempt
             \<lparr>attempt_user_id = user,
              attempt_quiz_id = Some (quiz_id quiz),
              attempt_score =
                js_times
                  (js_div (score_of (validQuestions d)
                             (userAnswers (run as (fst (loadQuiz (Fulfilled d None) quiz st)))))
                          (length (validQuestions d)))
                  100,
              total_questions = length (validQuestions d)\<rparr> # rest)
       \<and> (\<forall>rows. d = Some rows \<and> \<not> list_all (\<lambda>q. has_options (options q)) rows \<longrightarrow>
             length (validQuestions d) < length rows)"
proof -
  let ?st1 = "fst (loadQuiz (Fulfilled d None) quiz st)"
  from assms have q: "questions ?st1 = validQuestions d" and s: "selectedQuiz ?st1 = Some quiz"
    by (simp_all add: loadQuiz_def Let_def)
  have a: "\<exists>rest. snd (handleSubmit r user (run as ?st1)) =
           InsertAttempt
             \<lparr>attempt_user_id = user,
              attempt_quiz_id = Some (quiz_id quiz),
              attempt_score =
                js_times
                  (js_div (score_of (validQuestions d) (userAnswers (run as ?st1)))
                          (length (validQuestions d)))
                  100,
              total_questions = length (validQuestions d)\<rparr> # rest"
    by (cases r) (simp_all add: handleSubmit_def Let_def run_keeps_questions
                                run_keeps_selected q s)
  have b: "\<forall>rows. d = Some rows \<and> \<not> list_all (\<lambda>q. has_options (options q)) rows \<longrightarrow>
             length (validQuestions d) < length rows"
    by (auto simp: validQuestions_def list_all_iff intro: length_filter_less)
  from a b show ?thesis by blast
qed

theorem attempt_counts_playable_witness:
  "validQuestions (Some [question1, question4, question2, question3]) \<noteq> []
   \<and> \<not> list_all (\<lambda>q. has_options (options q)) [question1, question4, question2, question3]
   \<and> length (validQuestions (Some [question1, question4, question2, question3])) < 4
   \<and> hd (snd (handleSubmit (Fulfilled None None) (Some ''u1'')
               (run [Answer ''q1'' ''Paris'', Next, Answer ''q2'' ''mitochondria'', Next]
                  (fst (loadQuiz (Fulfilled (Some [question1, question4, question2, question3]) None)
                          quiz1 browsing))))) =
       InsertAttempt \<lparr>attempt_user_id = Some ''u1'', attempt_quiz_id = Some ''z1'',
                      attempt_score = Num (2345624805922133 / 70368744177664),
                      total_questions = 3\<rparr>"
proof -
  let ?d = "Some [question1, question4, question2, question3]"
  let ?as = "[Answer ''q1'' ''Paris'', Next, Answer ''q2'' ''mitochondria'', Next]"
  let ?st = "run ?as (fst (loadQuiz (Fulfilled ?d None) quiz1 browsing))"
  have v: "validQuestions ?d = [question1, question2, question3]"
    by (simp add: validQuestions_def has_options_def js_or_def question1_def question2_def
                  question3_def question4_def)
  have h1: "validQuestions ?d \<noteq> []" by (simp add: v)
  have h2: "\<not> list_all (\<lambda>q. has_options (options q)) [question1, question4, question2, question3]"
    by (simp add: has_options_def question4_def)
  have ua: "userAnswers ?st = [''q1'' \<mapsto> ''Paris'', ''q2'' \<mapsto> ''mitochondria'']"
    by (simp add: run_def handleAnswerSelect_def handleNext_def loadQuiz_def Let_def v)
  have sc: "score_of [question1, question2, question3] [''q1'' \<mapsto> ''Paris'', ''q2'' \<mapsto> ''mitochondria''] = 1"
    by (simp add: score_of_def question1_def question2_def question3_def)
  have l: "length [question1, question2, question3] = 3" by simp
  have qid: "quiz_id quiz1 = ''z1''" by (simp add: quiz1_def)
  note t = attempt_counts_playable[OF h1, of "Fulfilled None None" "Some ''u1''" ?as quiz1 browsing]
  from t have lt: "length (validQuestions ?d) < 4" using h2 by simp
  from t obtain rest where
    "snd (handleSubmit (Fulfilled None None) (Some ''u1'') ?st) =
       InsertAttempt
         \<lparr>attempt_user_id = Some ''u1'', attempt_quiz_id = Some (quiz_id quiz1),
          attempt_score = js_times (js_div (score_of (validQuestions ?d) (userAnswers ?st))
                                           (length (validQuestions ?d))) 100,
          total_questions = length (validQuestions ?d)\<rparr> # rest"
    by blast
  then have "hd (snd (handleSubmit (Fulfilled None None) (Some ''u1'') ?st)) =
       InsertAttempt \<lparr>attempt_user_id = Some ''u1'', attempt_quiz_id = Some ''z1'',
                      attempt_score = Num (2345624805922133 / 70368744177664),
                      total_questions = 3\<rparr>"
    unfolding ua v sc l qid one_of_three_stored by simp
  with h1 h2 lt show ?thesis by simp
qed

section \<open>Claims about the materials page and the edge functions\<close>

text \<open>
  C2 asks that each of the four steps of the fan-out either succeeds or throws. The first
  step does: it throws the error the insert of the material returns. The later steps do
  not look at what their inserts return. Here the insert of the note is answered with an
  error, and \<open>saveMaterialAndContent\<close> goes on to insert the flashcards and returns
  \<open>true\<close>.
\<close>

theorem note_error_ignored:
  "saveMaterialAndContent note_refused (Some ''u1'') (JStr ''Osmosis'') ''Osmosis''
       ''ai_generated'' notes_and_cards =
     (Inr (Some True),
      [InsertMaterial \<lparr>material_user_id = ''u1'', material_title = JStr ''Osmosis'',
                       material_content = ''Osmosis'', source_type = ''ai_generated'',
                       material_summary = JStr ''Water moves''\<rparr>,
       InsertNote \<lparr>note_user_id = ''u1'', note_material_id = ''m1'',
                   note_title = (JStr ''Osmosis'', '' - Notes''),
                   note_content = JStr ''Water moves'',
                   key_points = JArr [JStr ''Solvent crosses the membrane''],
                   examples = JUndefined\<rparr>,
       InsertFlashcards [\<lparr>flashcard_user_id = ''u1'', flashcard_material_id = ''m1'',
                          flashcard_question = JStr ''What moves?'',
                          flashcard_answer = JStr ''Water'',
                          difficulty = JStr ''medium''\<rparr>]])"
  by (simp add: saveMaterialAndContent_def note_refused_def all_ok_def notes_and_cards_def
                save_notes_def save_flashcards_def save_quiz_def flashcard_of_def read_def
                js_or_def Let_def)

text \<open>
  C5, as the code has it. For a signed-in user, generated data that is an object, entries
  that are neither \<open>null\<close> nor \<open>undefined\<close>, and a storage service that carries out
  every insert, the fan-out sends these requests in this order and returns \<open>true\<close>:
  one material; one note referring to the material when \<open>key_points\<close> or \<open>examples\<close> is
  truthy; when \<open>flashcards\<close> is an array, empty or not, one insert of one flashcard row
  per entry, each referring to the material, with difficulty ``medium'' where the entry
  has none; when \<open>quiz_questions\<close> is an array, empty or not, one quiz referring to the
  material and then one insert of one question row per entry, each referring to the new
  quiz.
\<close>

theorem fanout_order:
  assumes "material_reply rs = Fulfilled (Some mid) None"
      and "quiz_reply rs = Fulfilled (Some qid) None"
      and "\<forall>e. note_reply rs \<noteq> Rejected e \<and> flashcards_reply rs \<noteq> Rejected e
               \<and> questions_reply rs \<noteq> Rejected e"
      and "\<forall>c \<in> set (elements (read (JObj g) ''flashcards'')). is_entry c"
      and "\<forall>q \<in> set (elements (read (JObj g) ''quiz_questions'')). is_entry q"
  shows "saveMaterialAndContent rs (Some uid) title content kind (JObj g) =
     (Inr (Some True),
      [InsertMaterial \<lparr>material_user_id = uid, material_title = title,
                       material_content = content, source_type = kind,
                       material_summary = read (JObj g) ''summary''\<rparr>]
      @ (if truthy (read (JObj g) ''key_points'') \<or> truthy (read (JObj g) ''examples'')
         then [InsertNote \<lparr>note_user_id = uid, note_material_id = mid,
                           note_title = (title, '' - Notes''),
                           note_content = read (JObj g) ''summary'',
                           key_points = read (JObj g) ''key_points'',
                           examples = read (JObj g) ''examples''\<rparr>]
         else [])
      @ (if isArray (read (JObj g) ''flashcards'')
         then [InsertFlashcards (map (flashcard_row_of uid mid)
                                     (elements (read (JObj g) ''flashcards'')))]
         else [])
      @ (if isArray (read (JObj g) ''quiz_questions'')
         then [InsertQuiz \<lparr>quiz_user_id = uid, quiz_material_id = mid,
                           quiz_row_title = (title, '' - Quiz'')\<rparr>,
               InsertQuestions (map (question_row_of qid)
                                    (elements (read (JObj g) ''quiz_questions'')))]
         else []))"
proof -
  have n: "\<forall>e. note_reply rs \<noteq> Rejected e" and f: "\<forall>e. flashcards_reply rs \<noteq> Rejected e"
    and q: "\<forall>e. questions_reply rs \<noteq> Rejected e" using assms(3) by auto
  have s: "get (JObj g) ''summary'' = Inr (read (JObj g) ''summary'')" by (simp add: read_def)
  note steps = save_notes_ok[OF n, of uid mid title "JObj g"]
               save_flashcards_ok[OF f assms(4), of uid mid]
               save_quiz_ok[OF q assms(5), of qid uid mid title]
  show ?thesis
    by (simp add: saveMaterialAndContent_def s assms(1,2) steps Let_def del: get.simps)
qed

theorem fanout_order_witness:
  "material_reply all_ok = Fulfilled (Some ''m1'') None
   \<and> quiz_reply all_ok = Fulfilled (Some ''z1'') None
   \<and> list_all is_entry (elements (read notes_and_cards ''flashcards''))
   \<and> list_all is_entry (elements (read notes_and_cards ''quiz_questions''))
   \<and> saveMaterialAndContent all_ok (Some ''u1'') (JStr ''Osmosis'') ''Osmosis''
        ''ai_generated'' notes_and_cards =
      (Inr (Some True),
       [InsertMaterial \<lparr>material_user_id = ''u1'', material_title = JStr ''Osmosis'',
                        material_content = ''Osmosis'', source_type = ''ai_generated'',
                        material_summary = JStr ''Water moves''\<rparr>,
        InsertNote \<lparr>note_user_id = ''u1'', note_material_id = ''m1'',
                    note_title = (JStr ''Osmosis'', '' - Notes''),
                    note_content = JStr ''Water moves'',
                    key_points = JArr [JStr ''Solvent crosses the membrane''],
                    examples = JUndefined\<rparr>,
        InsertFlashcards [\<lparr>flashcard_user_id = ''u1'', flashcard_material_id = ''m1'',
                           flashcard_question = JStr ''What moves?'',
                           flashcard_answer = JStr ''Water'',
                           difficulty = JStr ''medium''\<rparr>]])"
proof -
  let ?g = "[(''summary'', JStr ''Water moves''),
             (''key_points'', JArr [JStr ''Solvent crosses the membrane'']),
             (''flashcards'', JArr [JObj [(''question'', JStr ''What moves?''),
                                          (''answer'', JStr ''Water'')]])]"
  have g: "notes_and_cards = JObj ?g" by (simp add: notes_and_cards_def)
  have h1: "material_reply all_ok = Fulfilled (Some ''m1'') None" by (simp add: all_ok_def)
  have h2: "quiz_reply all_ok = Fulfilled (Some ''z1'') None" by (simp add: all_ok_def)
  have h3: "\<forall>e. note_reply all_ok \<noteq> Rejected e \<and> flashcards_reply all_ok \<noteq> Rejected e
               \<and> questions_reply all_ok \<noteq> Rejected e"
    by (simp add: all_ok_def)
  have h4: "\<forall>c \<in> set (elements (read (JObj ?g) ''flashcards'')). is_entry c"
    by (simp add: read_def is_entry_def)
  have h5: "\<forall>q \<in> set (elements (read (JObj ?g) ''quiz_questions'')). is_entry q"
    by (simp add: read_def)
  note t = fanout_order[OF h1 h2 h3 h4 h5, of "''u1''" "JStr ''Osmosis''" "''Osmosis''"
                          "''ai_generated''"]
  have e: "saveMaterialAndContent all_ok (Some ''u1'') (JStr ''Osmosis'') ''Osmosis''
        ''ai_generated'' (JObj ?g) =
      (Inr (Some True),
       [InsertMaterial \<lparr>material_user_id = ''u1'', material_title = JStr ''Osmosis'',
                        material_content = ''Osmosis'', source_type = ''ai_generated'',
                        material_summary = JStr ''Water moves''\<rparr>,
        InsertNote \<lparr>note_user_id = ''u1'', note_material_id = ''m1'',
                    note_title = (JStr ''Osmosis'', '' - Notes''),
                    note_content = JStr ''Water moves'',
                    key_points = JArr [JStr ''Solvent crosses the membrane''],
                    examples = JUndefined\<rparr>,
        InsertFlashcards [\<lparr>flashcard_user_id = ''u1'', flashcard_material_id = ''m1'',
                           flashcard_question = JStr ''What moves?'',
                           flashcard_answer = JStr ''Water'',
                           difficulty = JStr ''medium''\<rparr>]])"
    by (subst t) (simp add: read_def flashcard_row_of_def js_or_def)
  from h4 h5 have l: "list_all is_entry (elements (read (JObj ?g) ''flashcards''))"
      "list_all is_entry (elements (read (JObj ?g) ''quiz_questions''))"
    by (simp_all add: list_all_iff)
  from h1 h2 l e show ?thesis unfolding g by blast
qed

text \<open>
  C5 as stated fails: with an empty list of quiz questions the fan-out still inserts a
  quiz, and sends an insert of no question rows.
\<close>

theorem empty_quiz_questions_counterexample:
  "snd (saveMaterialAndContent all_ok (Some ''u1'') (JStr ''Osmosis'') ''Osmosis'' ''ai_generated''
          empty_quiz_result) =
     [InsertMaterial \<lparr>material_user_id = ''u1'', material_title = JStr ''Osmosis'',
                      material_content = ''Osmosis'', source_type = ''ai_generated'',
                      material_summary = JStr ''Water moves''\<rparr>,
      InsertQuiz \<lparr>quiz_user_id = ''u1'', quiz_material_id = ''m1'',
                  quiz_row_title = (JStr ''Osmosis'', '' - Quiz'')\<rparr>,
      InsertQuestions []]"
  by (simp add: saveMaterialAndContent_def all_ok_def empty_quiz_result_def save_notes_def
                save_flashcards_def save_quiz_def read_def js_or_def Let_def)

text \<open>
  C6. A completion whose text is a fence labeled \<open>json\<close>, white space, a body, white
  space and the closing fence is cleaned to the trimmed body; so is one with an unlabeled
  fence, provided what follows the fence does not begin with \<open>json\<close>. Where the parser
  accepts that body the function then answers with status 200 and the parsed value.
  Where the parser rejects the cleaned text of a non-empty completion the function
  answers with status 500 and the message ``AI generated invalid JSON format''. A page
  whose call of the function comes back with an error, or fails, sends no write to the
  storage service. The parser of the runtime is a parameter.
\<close>

theorem fenced_json_parsed:
  assumes "\<forall>c \<in> set ws1. is_space c" and "\<forall>c \<in> set ws2. is_space c"
      and "JSON_parse (trim body) = Some v"
  shows "clean_content (fence @ ''json'' @ ws1 @ body @ ws2 @ fence) = trim body
       \<and> respond (parse_completion JSON_parse (Some (fence @ ''json'' @ ws1 @ body @ ws2 @ fence)))
           = Response 200 (JsonBody v)
       \<and> (\<not> startsWith (ws1 @ body @ ws2 @ fence) ''json'' \<longrightarrow>
            clean_content (fence @ ws1 @ body @ ws2 @ fence) = trim body
            \<and> respond (parse_completion JSON_parse (Some (fence @ ws1 @ body @ ws2 @ fence)))
                = Response 200 (JsonBody v))
       \<and> (\<forall>c. c \<noteq> [] \<and> JSON_parse (clean_content c) = None \<longrightarrow>
             respond (parse_completion JSON_parse (Some c))
               = Response 500 (ErrorBody ''AI generated invalid JSON format''))
       \<and> (\<forall>d e. list_all (\<lambda>ev. \<not> is_write ev)
                   (snd (handleTopicGenerate (Fulfilled d (Some e)) rs user st)
                    @ snd (handleTextSubmit (Fulfilled d (Some e)) rs user st)
                    @ snd (handleTopicGenerate (Rejected e) rs user st)
                    @ snd (handleTextSubmit (Rejected e) rs user st)))"
proof -
  have f: "fence \<noteq> []" by (simp add: fence_def)
  have ra: "respond (Inr v) = Response 200 (JsonBody v)" by (simp add: respond_def)
  note c1 = clean_labeled[OF assms(1,2), of body]
  have n1: "fence @ ''json'' @ ws1 @ body @ ws2 @ fence \<noteq> []" using f by simp
  have a: "parse_completion JSON_parse (Some (fence @ ''json'' @ ws1 @ body @ ws2 @ fence)) = Inr v"
    by (simp only: parse_completion_text[OF n1] c1 assms(3) option.case)
  have b: "\<not> startsWith (ws1 @ body @ ws2 @ fence) ''json'' \<longrightarrow>
            clean_content (fence @ ws1 @ body @ ws2 @ fence) = trim body
            \<and> respond (parse_completion JSON_parse (Some (fence @ ws1 @ body @ ws2 @ fence)))
                = Response 200 (JsonBody v)"
  proof
    assume u: "\<not> startsWith (ws1 @ body @ ws2 @ fence) ''json''"
    note c2 = clean_unlabeled[OF u assms(1,2)]
    have n2: "fence @ ws1 @ body @ ws2 @ fence \<noteq> []" using f by simp
    have "parse_completion JSON_parse (Some (fence @ ws1 @ body @ ws2 @ fence)) = Inr v"
      by (simp only: parse_completion_text[OF n2] c2 assms(3) option.case)
    with c2 ra show "clean_content (fence @ ws1 @ body @ ws2 @ fence) = trim body
            \<and> respond (parse_completion JSON_parse (Some (fence @ ws1 @ body @ ws2 @ fence)))
                = Response 200 (JsonBody v)"
      by (simp only: simp_thms)
  qed
  have c: "\<forall>c. c \<noteq> [] \<and> JSON_parse (clean_content c) = None \<longrightarrow>
             respond (parse_completion JSON_parse (Some c))
               = Response 500 (ErrorBody ''AI generated invalid JSON format'')"
    by (simp add: parse_completion_def respond_def)
  have d: "\<forall>d e. list_all (\<lambda>ev. \<not> is_write ev)
                   (snd (handleTopicGenerate (Fulfilled d (Some e)) rs user st)
                    @ snd (handleTextSubmit (Fulfilled d (Some e)) rs user st)
                    @ snd (handleTopicGenerate (Rejected e) rs user st)
                    @ snd (handleTextSubmit (Rejected e) rs user st))"
    by (simp add: handleTopicGenerate_def handleTextSubmit_def generate_failed_def Let_def)
  from a ra have a': "respond (parse_completion JSON_parse
                        (Some (fence @ ''json'' @ ws1 @ body @ ws2 @ fence)))
           = Response 200 (JsonBody v)" by (simp only:)
  from c1 a' b c d show ?thesis by blast
qed

theorem fenced_json_parsed_witness:
  "list_all is_space [CHR 0x0A]
   \<and> only_empty_object (trim ''{}'') = Some (JObj [])
   \<and> \<not> startsWith ([CHR 0x0A] @ ''{}'' @ [CHR 0x0A] @ fence) ''json''
   \<and> clean_content (fence @ ''json'' @ [CHR 0x0A] @ ''{}'' @ [CHR 0x0A] @ fence) = ''{}''
   \<and> respond (parse_completion only_empty_object
                 (Some (fence @ ''json'' @ [CHR 0x0A] @ ''{}'' @ [CHR 0x0A] @ fence)))
       = Response 200 (JsonBody (JObj []))
   \<and> respond (parse_completion only_empty_object
                 (Some (fence @ [CHR 0x0A] @ ''{}'' @ [CHR 0x0A] @ fence)))
       = Response 200 (JsonBody (JObj []))
   \<and> only_empty_object (clean_content ''Sorry, no'') = None
   \<and> respond (parse_completion only_empty_object (Some ''Sorry, no''))
       = Response 500 (ErrorBody ''AI generated invalid JSON format'')"
proof -
  have sp: "is_space (CHR 0x0A)" by (simp add: is_space_def)
  have h2: "\<forall>c \<in> set [CHR 0x0A]. is_space c" using sp by simp
  have tr: "trim ''{}'' = ''{}''" by (simp add: trim_def is_space_def)
  have h4: "only_empty_object (trim ''{}'') = Some (JObj [])"
    by (simp add: tr only_empty_object_def)
  have h6: "\<not> startsWith ([CHR 0x0A] @ ''{}'' @ [CHR 0x0A] @ fence) ''json''" by simp
  have cl: "clean_content ''Sorry, no'' = ''Sorry, no''"
    by (simp add: clean_content_def trim_def is_space_def fence_def)
  have h5: "''Sorry, no'' \<noteq> [] \<and> only_empty_object (clean_content ''Sorry, no'') = None"
    by (simp add: cl only_empty_object_def)
  note t = fenced_json_parsed[where JSON_parse = only_empty_object and body = "''{}''"
                                and v = "JObj []" and rs = all_ok and user = None
                                and st = blank_page, OF h2 h2 h4]
  from t have a: "clean_content (fence @ ''json'' @ [CHR 0x0A] @ ''{}'' @ [CHR 0x0A] @ fence) = ''{}''"
    using tr by simp
  from t have b: "respond (parse_completion only_empty_object
                 (Some (fence @ ''json'' @ [CHR 0x0A] @ ''{}'' @ [CHR 0x0A] @ fence)))
       = Response 200 (JsonBody (JObj []))" by blast
  from t h6 have c: "respond (parse_completion only_empty_object
                 (Some (fence @ [CHR 0x0A] @ ''{}'' @ [CHR 0x0A] @ fence)))
       = Response 200 (JsonBody (JObj []))" by blast
  from t h5 have d: "respond (parse_completion only_empty_object (Some ''Sorry, no''))
       = Response 500 (ErrorBody ''AI generated invalid JSON format'')" by blast
  from sp h4 h6 a b c h5 d show ?thesis by simp
qed

text \<open>
  C7. When the topic is empty or only white space, \<open>handleTopicGenerate\<close> shows the
  notification ``Please enter a topic'' and does nothing else: the state is unchanged and
  no function is called and no row is written. The same holds for \<open>handleTextSubmit\<close>
  with the pasted text and the notification ``Please enter some text to analyze''.
\<close>

theorem blank_input_rejected:
  "((\<forall>c \<in> set (topic st). is_space c) \<longrightarrow>
      handleTopicGenerate invoked rs user st = (st, [ToastError (Text ''Please enter a topic'')]))
   \<and> ((\<forall>c \<in> set (text_input st). is_space c) \<longrightarrow>
      handleTextSubmit invoked rs user st =
        (st, [ToastError (Text ''Please enter some text to analyze'')]))
   \<and> \<not> is_network (ToastError (Text ''Please enter a topic''))
   \<and> \<not> is_network (ToastError (Text ''Please enter some text to analyze''))"
  by (simp add: handleTopicGenerate_def handleTextSubmit_def trim_all_space)

theorem blank_input_rejected_witness:
  "list_all is_space (topic blank_page) \<and> list_all is_space (text_input blank_page)
   \<and> handleTopicGenerate (Fulfilled (Some notes_and_cards) None) all_ok (Some ''u1'') blank_page
       = (blank_page, [ToastError (Text ''Please enter a topic'')])
   \<and> handleTextSubmit (Fulfilled (Some notes_and_cards) None) all_ok (Some ''u1'') blank_page
       = (blank_page, [ToastError (Text ''Please enter some text to analyze'')])"
proof -
  have h1: "\<forall>c \<in> set (topic blank_page). is_space c"
    by (simp add: blank_page_def is_space_def)
  have h2: "\<forall>c \<in> set (text_input blank_page). is_space c"
    by (simp add: blank_page_def is_space_def)
  note t = blank_input_rejected[of blank_page "Fulfilled (Some notes_and_cards) None" all_ok
                                   "Some ''u1''"]
  from t h1 have a: "handleTopicGenerate (Fulfilled (Some notes_and_cards) None) all_ok
                       (Some ''u1'') blank_page
       = (blank_page, [ToastError (Text ''Please enter a topic'')])" by blast
  from t h2 have b: "handleTextSubmit (Fulfilled (Some notes_and_cards) None) all_ok
                       (Some ''u1'') blank_page
       = (blank_page, [ToastError (Text ''Please enter some text to analyze'')])" by blast
  from h1 h2 a b show ?thesis by (simp add: list_all_iff)
qed


end
